theory Spec2Isabelle
  imports Main "HOL-Library.AList"
begin

section \<open>Values of the Python program\<close>

text \<open>
  The module \<^verbatim>\<open>server/links/scitt/create_hashed_signed_statement.py\<close> builds Python
  dictionaries whose keys and values are of mixed types: integers, text, byte strings,
  \<^verbatim>\<open>None\<close>, nested dictionaries, and the attribute classes of the pycose library.
  A byte string is a list of 8-bit characters; a text string is modelled the same way.
\<close>

type_synonym bytes = string

text \<open>The names imported from pycose at lines 12-17 of the module.\<close>

datatype cose_name =
  Algorithm | KID | Es256 | P256
  | KpKty | EC2KpD | EC2KpX | EC2KpY | KpKeyOps | EC2KpCurve
  | KtyEC2 | SignOp | VerifyOp

datatype pyval =
  PNone
  | PInt int
  | PStr string
  | PBytes bytes
  | PCose cose_name
  | PList "pyval list"
  | PDict "(pyval \<times> pyval) list"

text \<open>
  A dictionary display \<^verbatim>\<open>{k1: v1, k2: v2, ...}\<close> inserts its items from left to right:
  a new key goes to the end, a key already present keeps its place and takes the new value.
\<close>

definition dict_display :: "(pyval \<times> pyval) list \<Rightarrow> pyval" where
  "dict_display kvs = PDict (foldl (\<lambda>d (k, v). AList.update k v d) [] kvs)"

text \<open>Looking a key up: \<open>None\<close> when the value is no dictionary or lacks the key.\<close>

definition lookup :: "pyval \<Rightarrow> pyval \<Rightarrow> pyval option" where
  "lookup d k = (case d of PDict kvs \<Rightarrow> map_of kvs k | _ \<Rightarrow> None)"

text \<open>The slice \<^verbatim>\<open>xs[i:j]\<close> for literal bounds \<open>0 \<le> i \<le> j\<close>; it never raises.\<close>

definition slice :: "nat \<Rightarrow> nat \<Rightarrow> 'a list \<Rightarrow> 'a list" where
  "slice i j xs = take (j - i) (drop i xs)"

datatype error =
  AssertionError
  | UnboundLocalError
  | FileNotFoundError
  | TypeError
  | ValueError
  | LibraryError string

section \<open>Module constants (lines 24-49)\<close>

definition HEADER_LABEL_CWT :: int where "HEADER_LABEL_CWT = 13"
definition HEADER_LABEL_CWT_ISSUER :: int where "HEADER_LABEL_CWT_ISSUER = 1"
definition HEADER_LABEL_CWT_SUBJECT :: int where "HEADER_LABEL_CWT_SUBJECT = 2"
definition HEADER_LABEL_CWT_CNF :: int where "HEADER_LABEL_CWT_CNF = 8"
definition HEADER_LABEL_CNF_COSE_KEY :: int where "HEADER_LABEL_CNF_COSE_KEY = 1"
definition HEADER_LABEL_COSE_ALG_SHA256 :: int where "HEADER_LABEL_COSE_ALG_SHA256 = - 16"
definition HEADER_LABEL_COSE_ALG_SHA384 :: int where "HEADER_LABEL_COSE_ALG_SHA384 = - 43"
definition HEADER_LABEL_COSE_ALG_SHA512 :: int where "HEADER_LABEL_COSE_ALG_SHA512 = - 44"
definition HEADER_LABEL_COSE_ALG_SHA512_256 :: int where "HEADER_LABEL_COSE_ALG_SHA512_256 = - 17"
definition HEADER_LABEL_PAYLOAD_HASH_ALGORITHM :: int where
  "HEADER_LABEL_PAYLOAD_HASH_ALGORITHM = - 6800"
definition HEADER_LABEL_PAYLOAD_LOCATION :: int where "HEADER_LABEL_PAYLOAD_LOCATION = - 6801"
definition HEADER_LABEL_PAYLOAD_PRE_CONTENT_TYPE :: int where
  "HEADER_LABEL_PAYLOAD_PRE_CONTENT_TYPE = - 6802"
definition HEADER_LABEL_META_MAP :: int where "HEADER_LABEL_META_MAP = - 6804"

section \<open>Keys, messages and the libraries\<close>

text \<open>
  The ecdsa library's key objects, as far as the module reads them: a verifying key
  serialises to the bytes \<open>x || y\<close>, a signing key serialises to its private scalar and
  carries an optional verifying key (\<^verbatim>\<open>Optional[VerifyingKey]\<close>, line 88).
\<close>

record VerifyingKey =
  vk_to_string :: bytes

record SigningKey =
  sk_to_string :: bytes
  verifying_key :: "VerifyingKey option"

text \<open>
  A pycose \<^verbatim>\<open>Sign1Message\<close> object: the constructor at line 130 checks the protected
  header and the payload and, when it accepts them, stores them; line 143 sets the key.
\<close>

record Sign1Message =
  phdr :: pyval
  msg_payload :: pyval
  msg_key :: "pyval option"

text \<open>
  The third-party functions the module calls are parameters of the model. Signing draws
  on randomness, so \<open>lib_encode\<close> transforms a state \<open>'s\<close> of the signer; every library
  function that can raise returns a sum. \<open>lib_sign1_init\<close> is the validation made by the
  constructor of \<^verbatim>\<open>Sign1Message\<close>: the exception it raises for a protected header and
  a payload, if any.
\<close>

record 's library =
  lib_from_pem :: "string \<Rightarrow> error + SigningKey"
  lib_json_loads :: "string \<Rightarrow> error + pyval"
  lib_sha256 :: "bytes \<Rightarrow> bytes"
  lib_utf8_decode :: "bytes \<Rightarrow> error + string"
  lib_utf8_encode :: "string \<Rightarrow> bytes"
  lib_sign1_init :: "pyval \<Rightarrow> pyval \<Rightarrow> error option"
  lib_from_dict :: "pyval \<Rightarrow> error + pyval"
  lib_encode :: "Sign1Message \<Rightarrow> pyval list \<Rightarrow> 's \<Rightarrow> (error + bytes) \<times> 's"

section \<open>create_hashed_signed_statement (lines 71-149)\<close>

text \<open>
  The arguments of one call. An optional argument that the caller omits is \<open>None\<close>;
  the function's signature supplies its default.
\<close>

record call_args =
  issuer :: pyval
  signing_key :: SigningKey
  subject :: pyval
  kid :: "pyval option"
  meta_map :: "pyval option"
  payload :: "pyval option"
  payload_hash_alg :: "pyval option"
  payload_location :: "pyval option"
  pre_image_content_type :: "pyval option"

text \<open>The defaults of the signature, lines 75-80.\<close>

definition arg_kid :: "call_args \<Rightarrow> pyval" where
  "arg_kid a = (case kid a of None \<Rightarrow> PBytes ''testkey'' | Some v \<Rightarrow> v)"

definition arg_meta_map :: "call_args \<Rightarrow> pyval" where
  "arg_meta_map a = (case meta_map a of None \<Rightarrow> PNone | Some v \<Rightarrow> v)"

definition arg_payload :: "call_args \<Rightarrow> pyval" where
  "arg_payload a = (case payload a of None \<Rightarrow> PNone | Some v \<Rightarrow> v)"

definition arg_payload_hash_alg :: "call_args \<Rightarrow> pyval" where
  "arg_payload_hash_alg a = (case payload_hash_alg a of None \<Rightarrow> PStr ''SHA-256'' | Some v \<Rightarrow> v)"

definition arg_payload_location :: "call_args \<Rightarrow> pyval" where
  "arg_payload_location a = (case payload_location a of None \<Rightarrow> PNone | Some v \<Rightarrow> v)"

definition arg_pre_image_content_type :: "call_args \<Rightarrow> pyval" where
  "arg_pre_image_content_type a =
     (case pre_image_content_type a of None \<Rightarrow> PNone | Some v \<Rightarrow> v)"

text \<open>
  Lines 88-96: the assertion on the verifying key, and the two slices of its
  serialisation.
\<close>

definition xy_parts :: "SigningKey \<Rightarrow> error + bytes \<times> bytes" where
  "xy_parts sk =
     (case verifying_key sk of
        None \<Rightarrow> Inl AssertionError
      | Some vk \<Rightarrow>
          (let xy = vk_to_string vk
           in Inr (slice 0 32 xy, slice 32 64 xy)))"

text \<open>
  Lines 99-105: the \<^verbatim>\<open>match\<close> statement has three cases and no default. When no case
  matches, the local variable \<^verbatim>\<open>payload_hash_alg_label\<close> stays unbound: \<open>None\<close>.
\<close>

definition match_payload_hash_alg :: "pyval \<Rightarrow> int option" where
  "match_payload_hash_alg alg =
     (if alg = PStr ''SHA-256'' then Some HEADER_LABEL_COSE_ALG_SHA256
      else if alg = PStr ''SHA-384'' then Some HEADER_LABEL_COSE_ALG_SHA384
      else if alg = PStr ''SHA-512'' then Some HEADER_LABEL_COSE_ALG_SHA512
      else None)"

text \<open>
  Lines 109-128: the dictionary display of the protected header. Python evaluates the
  items in order; reading the unbound label at line 125 raises \<^verbatim>\<open>UnboundLocalError\<close>,
  and nothing evaluated before it has an effect.
\<close>

definition protected_header_display ::
  "call_args \<Rightarrow> bytes \<Rightarrow> bytes \<Rightarrow> int option \<Rightarrow> error + pyval" where
  "protected_header_display a x_part y_part payload_hash_alg_label =
     (case payload_hash_alg_label of
        None \<Rightarrow> Inl UnboundLocalError
      | Some label \<Rightarrow> Inr (dict_display
          [(PCose Algorithm, PCose Es256),
           (PCose KID, arg_kid a),
           (PInt HEADER_LABEL_PAYLOAD_PRE_CONTENT_TYPE, arg_pre_image_content_type a),
           (PInt HEADER_LABEL_CWT, dict_display
              [(PInt HEADER_LABEL_CWT_ISSUER, issuer a),
               (PInt HEADER_LABEL_CWT_SUBJECT, subject a),
               (PInt HEADER_LABEL_CWT_CNF, dict_display
                  [(PInt HEADER_LABEL_CNF_COSE_KEY, dict_display
                      [(PCose KpKty, PCose KtyEC2),
                       (PCose EC2KpCurve, PCose P256),
                       (PCose EC2KpX, PBytes x_part),
                       (PCose EC2KpY, PBytes y_part)])])]),
           (PInt HEADER_LABEL_PAYLOAD_HASH_ALGORITHM, PInt label),
           (PInt HEADER_LABEL_PAYLOAD_LOCATION, arg_payload_location a),
           (PInt HEADER_LABEL_META_MAP, arg_meta_map a)]))"

text \<open>
  Lines 86-128 together: the value of the local variable \<^verbatim>\<open>protected_header\<close> when
  line 128 is reached, or the exception raised before.
\<close>

definition protected_header :: "call_args \<Rightarrow> error + pyval" where
  "protected_header a =
     (case xy_parts (signing_key a) of
        Inl e \<Rightarrow> Inl e
      | Inr (x_part, y_part) \<Rightarrow>
          protected_header_display a x_part y_part
            (match_payload_hash_alg (arg_payload_hash_alg a)))"

text \<open>Lines 133-140: the dictionary of the signing key handed to pycose.\<close>

definition cose_key_display :: "SigningKey \<Rightarrow> bytes \<Rightarrow> bytes \<Rightarrow> pyval" where
  "cose_key_display sk x_part y_part = dict_display
     [(PCose KpKty, PCose KtyEC2),
      (PCose EC2KpCurve, PCose P256),
      (PCose KpKeyOps, PList [PCose SignOp, PCose VerifyOp]),
      (PCose EC2KpD, PBytes (sk_to_string sk)),
      (PCose EC2KpX, PBytes x_part),
      (PCose EC2KpY, PBytes y_part)]"

text \<open>
  The whole function, statement by statement. An exception ends the call and leaves the
  signer's state as it was: the constructor at line 130 and \<^verbatim>\<open>CoseKey.from_dict\<close> at
  line 142 may raise, and only \<^verbatim>\<open>statement.encode([None])\<close> at line 147 signs.
\<close>

definition create_hashed_signed_statement ::
  "'s library \<Rightarrow> call_args \<Rightarrow> 's \<Rightarrow> (error + bytes) \<times> 's" where
  "create_hashed_signed_statement lib a s =
     (case verifying_key (signing_key a) of
        None \<Rightarrow> (Inl AssertionError, s)
      | Some vk \<Rightarrow>
          (let xy = vk_to_string vk;
               x_part = slice 0 32 xy;
               y_part = slice 32 64 xy;
               payload_hash_alg_label = match_payload_hash_alg (arg_payload_hash_alg a)
           in case protected_header_display a x_part y_part payload_hash_alg_label of
                Inl e \<Rightarrow> (Inl e, s)
              | Inr protected_hdr \<Rightarrow>
                  (case lib_sign1_init lib protected_hdr (arg_payload a) of
                     Some e \<Rightarrow> (Inl e, s)
                   | None \<Rightarrow>
                       (let statement =
                              \<lparr>phdr = protected_hdr, msg_payload = arg_payload a,
                                 msg_key = None\<rparr>;
                            cose_key = cose_key_display (signing_key a) x_part y_part
                        in case lib_from_dict lib cose_key of
                             Inl e \<Rightarrow> (Inl e, s)
                           | Inr key \<Rightarrow>
                               lib_encode lib (statement\<lparr>msg_key := Some key\<rparr>)
                                 [PNone] s))))"


section \<open>The command-line program (lines 51-68 and 152-251)\<close>

text \<open>
  The world outside the call: the files by path, the exception that opening a path for
  writing raises, if any (a missing directory, a refused permission), what has been
  printed, and the state of the signer.
\<close>

record 's world =
  files :: "string \<rightharpoonup> bytes"
  open_wb :: "string \<Rightarrow> error option"
  stdout :: "pyval list list"
  signer :: 's

text \<open>Lines 63-68: the text of a file; a missing file raises.\<close>

definition read_file :: "'s library \<Rightarrow> 's world \<Rightarrow> string \<Rightarrow> error + string" where
  "read_file lib w payload_file =
     (case files w payload_file of
        None \<Rightarrow> Inl FileNotFoundError
      | Some content \<Rightarrow> lib_utf8_decode lib content)"

text \<open>Lines 51-60: the file's text, parsed as a PEM key.\<close>

definition open_signing_key :: "'s library \<Rightarrow> 's world \<Rightarrow> string \<Rightarrow> error + SigningKey" where
  "open_signing_key lib w key_file =
     (case files w key_file of
        None \<Rightarrow> Inl FileNotFoundError
      | Some content \<Rightarrow>
          (case lib_utf8_decode lib content of
             Inl e \<Rightarrow> Inl e
           | Inr text \<Rightarrow> lib_from_pem lib text))"

text \<open>
  Lines 155-225: the parsed command line. The input is the map from the options given
  to their values; an option not given takes the default of its \<^verbatim>\<open>add_argument\<close>,
  which is \<^verbatim>\<open>None\<close> where none is declared.
\<close>

record namespace =
  ns_content_type :: string
  ns_issuer :: "string option"
  ns_kid :: pyval
  ns_meta_map_file :: "string option"
  ns_output_file :: string
  ns_payload_file :: string
  ns_payload_location :: "string option"
  ns_signing_key_file :: string
  ns_subject :: "string option"

definition parse_args :: "(string \<rightharpoonup> string) \<Rightarrow> namespace" where
  "parse_args argv =
     \<lparr>ns_content_type =
        (case argv ''--content-type'' of None \<Rightarrow> ''application/json'' | Some v \<Rightarrow> v),
      ns_issuer = argv ''--issuer'',
      ns_kid = (case argv ''--kid'' of None \<Rightarrow> PBytes ''testkey'' | Some v \<Rightarrow> PStr v),
      ns_meta_map_file = argv ''--meta-map-file'',
      ns_output_file =
        (case argv ''--output-file'' of None \<Rightarrow> ''signed-statement.cbor'' | Some v \<Rightarrow> v),
      ns_payload_file =
        (case argv ''--payload-file'' of None \<Rightarrow> ''scitt-payload.json'' | Some v \<Rightarrow> v),
      ns_payload_location = argv ''--payload-location'',
      ns_signing_key_file =
        (case argv ''--signing-key-file'' of None \<Rightarrow> ''scitt-signing-key.pem'' | Some v \<Rightarrow> v),
      ns_subject = argv ''--subject''\<rparr>"

definition str_or_none :: "string option \<Rightarrow> pyval" where
  "str_or_none x = (case x of None \<Rightarrow> PNone | Some v \<Rightarrow> PStr v)"

text \<open>Lines 227-230: the metadata map, read from its file or empty.\<close>

definition load_meta_map :: "'s library \<Rightarrow> 's world \<Rightarrow> namespace \<Rightarrow> error + pyval" where
  "load_meta_map lib w args =
     (case ns_meta_map_file args of
        Some f \<Rightarrow>
          (case read_file lib w f of
             Inl e \<Rightarrow> Inl e
           | Inr text \<Rightarrow> lib_json_loads lib text)
      | None \<Rightarrow> Inr (dict_display []))"

text \<open>Lines 238-248: the arguments \<^verbatim>\<open>main\<close> passes, all of them by keyword.\<close>

definition main_call_args :: "namespace \<Rightarrow> SigningKey \<Rightarrow> pyval \<Rightarrow> bytes \<Rightarrow> call_args" where
  "main_call_args args sk meta_map_dict payload_hash =
     \<lparr>issuer = str_or_none (ns_issuer args),
      signing_key = sk,
      subject = str_or_none (ns_subject args),
      kid = Some (ns_kid args),
      meta_map = Some meta_map_dict,
      payload = Some (PBytes payload_hash),
      payload_hash_alg = Some (PStr ''SHA-256''),
      payload_location = Some (str_or_none (ns_payload_location args)),
      pre_image_content_type = Some (PStr (ns_content_type args))\<rparr>"

text \<open>
  Lines 225-251. An exception ends the program where it is raised. The last statement
  opens the output file, which may raise and then leaves the files as they are, and
  writes the signed statement into it.
\<close>

definition main :: "'s library \<Rightarrow> (string \<rightharpoonup> string) \<Rightarrow> 's world \<Rightarrow> (error + unit) \<times> 's world" where
  "main lib argv w =
     (let args = parse_args argv
      in case load_meta_map lib w args of
           Inl e \<Rightarrow> (Inl e, w)
         | Inr meta_map_dict \<Rightarrow>
             (let w1 = w\<lparr>stdout := stdout w @ [[PStr ''meta_map:'', meta_map_dict]]\<rparr>
              in case open_signing_key lib w1 (ns_signing_key_file args) of
                   Inl e \<Rightarrow> (Inl e, w1)
                 | Inr sk \<Rightarrow>
                     (case read_file lib w1 (ns_payload_file args) of
                        Inl e \<Rightarrow> (Inl e, w1)
                      | Inr payload_contents \<Rightarrow>
                          (let payload_hash =
                                 lib_sha256 lib (lib_utf8_encode lib payload_contents)
                           in case create_hashed_signed_statement lib
                                     (main_call_args args sk meta_map_dict payload_hash)
                                     (signer w1) of
                                (Inl e, s') \<Rightarrow> (Inl e, w1\<lparr>signer := s'\<rparr>)
                              | (Inr signed_statement, s') \<Rightarrow>
                                  (case open_wb w1 (ns_output_file args) of
                                     Some e \<Rightarrow> (Inl e, w1\<lparr>signer := s'\<rparr>)
                                   | None \<Rightarrow>
                                       (Inr (),
                                        w1\<lparr>signer := s',
                                           files := (files w1)
                                             (ns_output_file args \<mapsto> signed_statement)\<rparr>))))))"

section \<open>Example inputs\<close>

text \<open>
  Two keys for the header alone: one whose verifying key serialises to 64 bytes, and one
  of a smaller curve, whose verifying key serialises to 48 bytes.
\<close>

definition demo_key :: SigningKey where
  "demo_key =
     \<lparr>sk_to_string = replicate 32 (CHR ''d''),
      verifying_key =
        Some \<lparr>vk_to_string = replicate 32 (CHR ''x'') @ replicate 32 (CHR ''y'')\<rparr>\<rparr>"


definition demo_args :: call_args where
  "demo_args =
     \<lparr>issuer = PStr ''issuer'',
      signing_key = demo_key,
      subject = PStr ''subject'',
      kid = None,
      meta_map = None,
      payload = None,
      payload_hash_alg = None,
      payload_location = None,
      pre_image_content_type = None\<rparr>"

text \<open>
  A P-256 key pair, the one of RFC 6979, appendix A.2.5: the private scalar and the two
  coordinates of its public point, 32 bytes each.
\<close>

definition p256_d :: bytes where
  "p256_d = map char_of
     [0xC9, 0xAF, 0xA9, 0xD8, 0x45, 0xBA, 0x75, 0x16, 0x6B, 0x5C, 0x21, 0x57, 0x67, 0xB1, 0xD6,
      0x93, 0x4E, 0x50, 0xC3, 0xDB, 0x36, 0xE8, 0x9B, 0x12, 0x7B, 0x8A, 0x62, 0x2B, 0x12, 0x0F,
      0x67, 0x21 :: nat]"

definition p256_x :: bytes where
  "p256_x = map char_of
     [0x60, 0xFE, 0xD4, 0xBA, 0x25, 0x5A, 0x9D, 0x31, 0xC9, 0x61, 0xEB, 0x74, 0xC6, 0x35, 0x6D,
      0x68, 0xC0, 0x49, 0xB8, 0x92, 0x3B, 0x61, 0xFA, 0x6C, 0xE6, 0x69, 0x62, 0x2E, 0x60, 0xF2,
      0x9F, 0xB6 :: nat]"

definition p256_y :: bytes where
  "p256_y = map char_of
     [0x79, 0x03, 0xFE, 0x10, 0x08, 0xB8, 0xBC, 0x99, 0xA4, 0x1A, 0xE9, 0xE9, 0x56, 0x28, 0xBC,
      0x64, 0xF2, 0xF1, 0xB2, 0x0C, 0x2D, 0x7E, 0x9F, 0x51, 0x77, 0xA3, 0xC2, 0x94, 0xD4, 0x46,
      0x22, 0x99 :: nat]"

definition p256_key :: SigningKey where
  "p256_key =
     \<lparr>sk_to_string = p256_d,
      verifying_key = Some \<lparr>vk_to_string = p256_x @ p256_y\<rparr>\<rparr>"

text \<open>The SHA-256 digest of the five bytes \<^verbatim>\<open>hello\<close>.\<close>

definition hello_sha256 :: bytes where
  "hello_sha256 = map char_of
     [0x2C, 0xF2, 0x4D, 0xBA, 0x5F, 0xB0, 0xA3, 0x0E, 0x26, 0xE8, 0x3B, 0x2A, 0xC5, 0xB9, 0xE2,
      0x9E, 0x1B, 0x16, 0x1E, 0x5C, 0x1F, 0xA7, 0x42, 0x5E, 0x73, 0x04, 0x33, 0x62, 0x93, 0x8B,
      0x98, 0x24 :: nat]"

text \<open>A call that signs that digest with the P-256 key, the key identifier omitted.\<close>

definition signing_args :: call_args where
  "signing_args =
     \<lparr>issuer = PStr ''issuer'',
      signing_key = p256_key,
      subject = PStr ''subject'',
      kid = None,
      meta_map = None,
      payload = Some (PBytes hello_sha256),
      payload_hash_alg = None,
      payload_location = None,
      pre_image_content_type = None\<rparr>"

text \<open>
  A small library for the examples. Its constructor refuses a key identifier that is
  not a byte string and a payload that is neither a byte string nor \<^verbatim>\<open>None\<close>; its
  \<^verbatim>\<open>from_dict\<close> accepts the dictionary of the P-256 key pair above and raises for any
  other; its encoder writes the key identifier, the payload and a stand-in for the
  signature, and counts its calls.
\<close>

definition demo_lib :: "nat library" where
  "demo_lib =
     \<lparr>lib_from_pem = (\<lambda>text. if text = ''PEM'' then Inr p256_key else Inl ValueError),
      lib_json_loads = (\<lambda>text. Inl ValueError),
      lib_sha256 = (\<lambda>b. if b = ''hello'' then hello_sha256 else replicate 32 (CHR ''?'')),
      lib_utf8_decode = (\<lambda>b. Inr b),
      lib_utf8_encode = (\<lambda>t. t),
      lib_sign1_init = (\<lambda>h p.
         case lookup h (PCose KID) of
           Some (PBytes k) \<Rightarrow>
             (case p of PNone \<Rightarrow> None | PBytes b \<Rightarrow> None | _ \<Rightarrow> Some TypeError)
         | _ \<Rightarrow> Some TypeError),
      lib_from_dict = (\<lambda>d.
         if d = cose_key_display p256_key p256_x p256_y then Inr d else Inl AssertionError),
      lib_encode = (\<lambda>m aad s.
         (Inr ((case lookup (phdr m) (PCose KID) of Some (PBytes k) \<Rightarrow> k | _ \<Rightarrow> [])
               @ '':''
               @ (case msg_payload m of PBytes b \<Rightarrow> b | _ \<Rightarrow> [])
               @ '':signature''),
          Suc s))\<rparr>"

text \<open>The same library with a signer that always fails.\<close>

definition failing_signer_lib :: "nat library" where
  "failing_signer_lib =
     demo_lib\<lparr>lib_encode := (\<lambda>m aad s. (Inl (LibraryError ''sign''), Suc s))\<rparr>"

text \<open>
  A world without files, and one that holds the key file and a payload file with the
  text \<^verbatim>\<open>hello\<close>, where every path can be opened for writing.
\<close>

definition empty_world :: "nat world" where
  "empty_world = \<lparr>files = Map.empty, open_wb = (\<lambda>p. None), stdout = [], signer = 0\<rparr>"

definition demo_world :: "nat world" where
  "demo_world =
     \<lparr>files = [''scitt-signing-key.pem'' \<mapsto> ''PEM'', ''scitt-payload.json'' \<mapsto> ''hello''],
      open_wb = (\<lambda>p. None),
      stdout = [],
      signer = 0\<rparr>"

section \<open>Basic facts\<close>

lemmas label_defs =
  HEADER_LABEL_CWT_def HEADER_LABEL_CWT_ISSUER_def HEADER_LABEL_CWT_SUBJECT_def
  HEADER_LABEL_CWT_CNF_def HEADER_LABEL_CNF_COSE_KEY_def
  HEADER_LABEL_COSE_ALG_SHA256_def HEADER_LABEL_COSE_ALG_SHA384_def
  HEADER_LABEL_COSE_ALG_SHA512_def HEADER_LABEL_COSE_ALG_SHA512_256_def
  HEADER_LABEL_PAYLOAD_HASH_ALGORITHM_def HEADER_LABEL_PAYLOAD_LOCATION_def
  HEADER_LABEL_PAYLOAD_PRE_CONTENT_TYPE_def HEADER_LABEL_META_MAP_def

lemma protected_header_display_Some:
  "protected_header_display a x_part y_part (Some label) = Inr (PDict
     [(PCose Algorithm, PCose Es256),
      (PCose KID, arg_kid a),
      (PInt (- 6802), arg_pre_image_content_type a),
      (PInt 13, PDict
         [(PInt 1, issuer a),
          (PInt 2, subject a),
          (PInt 8, PDict
             [(PInt 1, PDict
                 [(PCose KpKty, PCose KtyEC2),
                  (PCose EC2KpCurve, PCose P256),
                  (PCose EC2KpX, PBytes x_part),
                  (PCose EC2KpY, PBytes y_part)])])]),
      (PInt (- 6800), PInt label),
      (PInt (- 6801), arg_payload_location a),
      (PInt (- 6804), arg_meta_map a)])"
  by (simp add: protected_header_display_def dict_display_def label_defs)

lemma protected_header_display_Inr:
  "\<exists>ph. protected_header_display a x_part y_part (Some label) = Inr ph"
  by (simp add: protected_header_display_def)

lemma protected_header_display_None:
  "protected_header_display a x_part y_part None = Inl UnboundLocalError"
  by (simp add: protected_header_display_def)

lemma protected_header_Inr:
  assumes "protected_header a = Inr ph"
  shows "\<exists>vk label.
    verifying_key (signing_key a) = Some vk \<and>
    match_payload_hash_alg (arg_payload_hash_alg a) = Some label \<and>
    protected_header_display a (slice 0 32 (vk_to_string vk))
       (slice 32 64 (vk_to_string vk)) (Some label) = Inr ph"
proof (cases "verifying_key (signing_key a)")
  case None
  with assms show ?thesis
    by (simp add: protected_header_def xy_parts_def)
next
  case (Some vk)
  show ?thesis
  proof (cases "match_payload_hash_alg (arg_payload_hash_alg a)")
    case None
    with Some assms show ?thesis
      by (simp add: protected_header_def xy_parts_def Let_def protected_header_display_None)
  next
    case (Some label)
    with \<open>verifying_key (signing_key a) = Some vk\<close> assms show ?thesis
      by (simp add: protected_header_def xy_parts_def Let_def)
  qed
qed

lemma protected_header_built:
  assumes "verifying_key (signing_key a) = Some vk"
    and "match_payload_hash_alg (arg_payload_hash_alg a) = Some label"
  shows "protected_header a =
     protected_header_display a (slice 0 32 (vk_to_string vk))
       (slice 32 64 (vk_to_string vk)) (Some label)"
  using assms by (simp add: protected_header_def xy_parts_def Let_def)

lemma match_payload_hash_alg_Some:
  "match_payload_hash_alg alg = Some label \<longleftrightarrow>
     (alg = PStr ''SHA-256'' \<and> label = - 16) \<or>
     (alg = PStr ''SHA-384'' \<and> label = - 43) \<or>
     (alg = PStr ''SHA-512'' \<and> label = - 44)"
  by (auto simp: match_payload_hash_alg_def label_defs)

lemma match_payload_hash_alg_None:
  "match_payload_hash_alg alg = None \<longleftrightarrow>
     alg \<notin> {PStr ''SHA-256'', PStr ''SHA-384'', PStr ''SHA-512''}"
  by (simp add: match_payload_hash_alg_def)



lemma demo_args_header:
  "protected_header demo_args =
     protected_header_display demo_args (replicate 32 (CHR ''x'')) (replicate 32 (CHR ''y''))
       (Some (- 16))"
proof -
  have "verifying_key (signing_key demo_args) =
      Some \<lparr>vk_to_string = replicate 32 (CHR ''x'') @ replicate 32 (CHR ''y'')\<rparr>"
    by (simp add: demo_args_def demo_key_def)
  moreover have "match_payload_hash_alg (arg_payload_hash_alg demo_args) = Some (- 16)"
    by (simp add: demo_args_def arg_payload_hash_alg_def match_payload_hash_alg_Some)
  ultimately show ?thesis
    by (simp add: protected_header_built slice_def)
qed

lemma unmatched_alg_unbound_local:
  assumes "verifying_key (signing_key a) = Some vk"
    and "arg_payload_hash_alg a \<notin> {PStr ''SHA-256'', PStr ''SHA-384'', PStr ''SHA-512''}"
  shows "create_hashed_signed_statement lib a s = (Inl UnboundLocalError, s)"
proof -
  from assms(2) have "match_payload_hash_alg (arg_payload_hash_alg a) = None"
    by (simp add: match_payload_hash_alg_None)
  with assms(1) show ?thesis
    by (simp add: create_hashed_signed_statement_def Let_def protected_header_display_None)
qed


lemma header_built_xy:
  assumes "protected_header a = Inr ph"
  shows "\<exists>x y. xy_parts (signing_key a) = Inr (x, y)"
  using protected_header_Inr [OF assms]
  by (auto simp: xy_parts_def Let_def)

lemma create_built_header:
  assumes "protected_header a = Inr ph" and "xy_parts (signing_key a) = Inr (x, y)"
  shows "create_hashed_signed_statement lib a s =
     (case lib_sign1_init lib ph (arg_payload a) of
        Some e \<Rightarrow> (Inl e, s)
      | None \<Rightarrow>
          (case lib_from_dict lib (cose_key_display (signing_key a) x y) of
             Inl e \<Rightarrow> (Inl e, s)
           | Inr key \<Rightarrow>
               lib_encode lib \<lparr>phdr = ph, msg_payload = arg_payload a, msg_key = Some key\<rparr>
                 [PNone] s))"
proof -
  from protected_header_Inr [OF assms(1)] obtain vk label where
    vk: "verifying_key (signing_key a) = Some vk" and
    label: "match_payload_hash_alg (arg_payload_hash_alg a) = Some label" and
    ph: "protected_header_display a (slice 0 32 (vk_to_string vk))
       (slice 32 64 (vk_to_string vk)) (Some label) = Inr ph"
    by blast
  from vk assms(2) have xy: "x = slice 0 32 (vk_to_string vk)" "y = slice 32 64 (vk_to_string vk)"
    by (simp_all add: xy_parts_def Let_def)
  from vk label ph show ?thesis
    unfolding xy
    by (simp add: create_hashed_signed_statement_def Let_def split: option.splits sum.splits)
qed

lemma create_reaches_encoder:
  assumes "protected_header a = Inr ph" and "xy_parts (signing_key a) = Inr (x, y)"
    and "lib_sign1_init lib ph (arg_payload a) = None"
    and "lib_from_dict lib (cose_key_display (signing_key a) x y) = Inr key"
  shows "create_hashed_signed_statement lib a s =
     lib_encode lib \<lparr>phdr = ph, msg_payload = arg_payload a, msg_key = Some key\<rparr> [PNone] s"
  using assms(3,4) by (simp add: create_built_header [OF assms(1,2)])



lemma p256_lengths:
  "length p256_d = 32" "length p256_x = 32" "length p256_y = 32" "length hello_sha256 = 32"
  by (simp_all add: p256_d_def p256_x_def p256_y_def hello_sha256_def)

lemma p256_xy_parts: "xy_parts p256_key = Inr (p256_x, p256_y)"
  by (simp add: xy_parts_def p256_key_def slice_def p256_lengths)


lemma signing_args_header:
  "protected_header signing_args =
     protected_header_display signing_args p256_x p256_y (Some (- 16))"
proof -
  have "verifying_key (signing_key signing_args) = Some \<lparr>vk_to_string = p256_x @ p256_y\<rparr>"
    by (simp add: signing_args_def p256_key_def)
  moreover have "match_payload_hash_alg (arg_payload_hash_alg signing_args) = Some (- 16)"
    by (simp add: signing_args_def arg_payload_hash_alg_def match_payload_hash_alg_Some)
  ultimately show ?thesis
    by (simp add: protected_header_built slice_def p256_lengths)
qed

lemma signing_args_run:
  "create_hashed_signed_statement demo_lib signing_args 0 =
     (Inr (''testkey'' @ '':'' @ hello_sha256 @ '':signature''), 1)"
proof -
  have "\<exists>ph. protected_header signing_args = Inr ph"
    by (simp only: signing_args_header protected_header_display_Inr)
  then obtain ph where ph: "protected_header signing_args = Inr ph" ..
  then have ph_eq: "protected_header_display signing_args p256_x p256_y (Some (- 16)) = Inr ph"
    by (simp only: signing_args_header)
  have kid: "lookup ph (PCose KID) = Some (PBytes ''testkey'')"
    using ph_eq by (auto simp: protected_header_display_Some lookup_def arg_kid_def signing_args_def)
  have pay: "arg_payload signing_args = PBytes hello_sha256"
    by (simp add: arg_payload_def signing_args_def)
  have xy: "xy_parts (signing_key signing_args) = Inr (p256_x, p256_y)"
    by (simp add: signing_args_def p256_xy_parts)
  have init: "lib_sign1_init demo_lib ph (arg_payload signing_args) = None"
    by (simp add: demo_lib_def kid pay)
  have key: "lib_from_dict demo_lib (cose_key_display (signing_key signing_args) p256_x p256_y)
      = Inr (cose_key_display p256_key p256_x p256_y)"
    by (simp add: demo_lib_def signing_args_def)
  have "create_hashed_signed_statement demo_lib signing_args 0 =
      lib_encode demo_lib
        \<lparr>phdr = ph, msg_payload = arg_payload signing_args,
           msg_key = Some (cose_key_display p256_key p256_x p256_y)\<rparr> [PNone] 0"
    by (rule create_reaches_encoder [OF ph xy init key])
  also have "\<dots> = (Inr (''testkey'' @ '':'' @ hello_sha256 @ '':signature''), 1)"
    by (simp add: demo_lib_def kid pay)
  finally show ?thesis .
qed



lemma main_reaches_call:
  assumes "load_meta_map lib w (parse_args argv) = Inr meta_map_dict"
    and "open_signing_key lib w (ns_signing_key_file (parse_args argv)) = Inr sk"
    and "read_file lib w (ns_payload_file (parse_args argv)) = Inr payload_contents"
    and "open_wb w (ns_output_file (parse_args argv)) = None"
  shows "fst (main lib argv w) =
     map_sum id (\<lambda>b. ())
       (fst (create_hashed_signed_statement lib
          (main_call_args (parse_args argv) sk meta_map_dict
             (lib_sha256 lib (lib_utf8_encode lib payload_contents)))
          (signer w)))"
  using assms
  by (simp add: main_def Let_def open_signing_key_def read_file_def
      split: sum.splits prod.splits)

lemma demo_run_inputs:
  "load_meta_map demo_lib demo_world (parse_args Map.empty) = Inr (PDict [])"
  "open_signing_key demo_lib demo_world (ns_signing_key_file (parse_args Map.empty))
     = Inr p256_key"
  "read_file demo_lib demo_world (ns_payload_file (parse_args Map.empty)) = Inr ''hello''"
  "open_wb demo_world (ns_output_file (parse_args Map.empty)) = None"
  by (simp_all add: load_meta_map_def open_signing_key_def read_file_def parse_args_def
      demo_lib_def demo_world_def dict_display_def)

lemma demo_call_args:
  "main_call_args (parse_args Map.empty) p256_key (PDict [])
     (lib_sha256 demo_lib (lib_utf8_encode demo_lib ''hello''))
   = \<lparr>issuer = PNone, signing_key = p256_key, subject = PNone,
      kid = Some (PBytes ''testkey''), meta_map = Some (PDict []),
      payload = Some (PBytes hello_sha256), payload_hash_alg = Some (PStr ''SHA-256''),
      payload_location = Some PNone,
      pre_image_content_type = Some (PStr ''application/json'')\<rparr>"
  by (simp add: main_call_args_def parse_args_def str_or_none_def demo_lib_def)

lemma demo_call_run:
  fixes lib :: "nat library"
  assumes "lib_sign1_init lib = lib_sign1_init demo_lib"
    and "lib_from_dict lib = lib_from_dict demo_lib"
  shows "create_hashed_signed_statement lib
     \<lparr>issuer = PNone, signing_key = p256_key, subject = PNone,
      kid = Some (PBytes ''testkey''), meta_map = Some (PDict []),
      payload = Some (PBytes hello_sha256), payload_hash_alg = Some (PStr ''SHA-256''),
      payload_location = Some PNone,
      pre_image_content_type = Some (PStr ''application/json'')\<rparr> 0
   = lib_encode lib
       \<lparr>phdr = PDict
         [(PCose Algorithm, PCose Es256),
          (PCose KID, PBytes ''testkey''),
          (PInt (- 6802), PStr ''application/json''),
          (PInt 13, PDict
             [(PInt 1, PNone),
              (PInt 2, PNone),
              (PInt 8, PDict
                 [(PInt 1, PDict
                     [(PCose KpKty, PCose KtyEC2),
                      (PCose EC2KpCurve, PCose P256),
                      (PCose EC2KpX, PBytes p256_x),
                      (PCose EC2KpY, PBytes p256_y)])])]),
          (PInt (- 6800), PInt (- 16)),
          (PInt (- 6801), PNone),
          (PInt (- 6804), PDict [])],
        msg_payload = PBytes hello_sha256,
        msg_key = Some (cose_key_display p256_key p256_x p256_y)\<rparr> [PNone] 0"
    (is "create_hashed_signed_statement lib ?a 0 = lib_encode lib ?m [PNone] 0")
proof -
  have vk: "verifying_key (signing_key ?a) = Some \<lparr>vk_to_string = p256_x @ p256_y\<rparr>"
    by (simp add: p256_key_def)
  have alg: "match_payload_hash_alg (arg_payload_hash_alg ?a) = Some (- 16)"
    by (simp add: arg_payload_hash_alg_def match_payload_hash_alg_Some)
  have ph: "protected_header ?a = Inr (phdr ?m)"
    by (simp add: protected_header_built [OF vk alg] protected_header_display_Some slice_def
        p256_lengths arg_kid_def arg_pre_image_content_type_def arg_payload_location_def
        arg_meta_map_def)
  have xy: "xy_parts (signing_key ?a) = Inr (p256_x, p256_y)"
    by (simp add: p256_xy_parts)
  have pay: "arg_payload ?a = PBytes hello_sha256"
    by (simp add: arg_payload_def)
  have init: "lib_sign1_init lib (phdr ?m) (arg_payload ?a) = None"
    by (simp add: assms(1) demo_lib_def lookup_def pay)
  have key: "lib_from_dict lib (cose_key_display (signing_key ?a) p256_x p256_y)
      = Inr (cose_key_display p256_key p256_x p256_y)"
    by (simp add: assms(2) demo_lib_def)
  from create_reaches_encoder [OF ph xy init key, of 0] pay show ?thesis
    by simp
qed

lemma failing_signer_run:
  "main failing_signer_lib Map.empty demo_world =
     (Inl (LibraryError ''sign''),
      demo_world\<lparr>stdout := [[PStr ''meta_map:'', PDict []]], signer := 1\<rparr>)"
proof -
  have run: "create_hashed_signed_statement failing_signer_lib
      (main_call_args (parse_args Map.empty) p256_key (PDict [])
         (lib_sha256 failing_signer_lib (lib_utf8_encode failing_signer_lib ''hello''))) 0
      = (Inl (LibraryError ''sign''), 1)"
    using demo_call_args
    by (simp add: demo_call_run failing_signer_lib_def)
  show ?thesis
    using run
    by (simp add: main_def Let_def load_meta_map_def open_signing_key_def read_file_def
        parse_args_def failing_signer_lib_def demo_lib_def demo_world_def dict_display_def)
qed

lemma demo_run:
  "main demo_lib Map.empty demo_world =
     (Inr (),
      demo_world\<lparr>stdout := [[PStr ''meta_map:'', PDict []]], signer := 1,
        files := (files demo_world)
          (''signed-statement.cbor'' \<mapsto> ''testkey'' @ '':'' @ hello_sha256 @ '':signature'')\<rparr>)"
proof -
  have run: "create_hashed_signed_statement demo_lib
      (main_call_args (parse_args Map.empty) p256_key (PDict [])
         (lib_sha256 demo_lib (lib_utf8_encode demo_lib ''hello''))) 0
      = (Inr (''testkey'' @ '':'' @ hello_sha256 @ '':signature''), 1)"
    unfolding demo_call_args
    by (simp add: demo_call_run) (simp add: demo_lib_def lookup_def)
  show ?thesis
    using run
    by (simp add: main_def Let_def load_meta_map_def open_signing_key_def read_file_def
        parse_args_def demo_lib_def demo_world_def dict_display_def)
qed

section \<open>Unsupported hash algorithms\<close>

text \<open>
  Claim C1. The specification asks that every \<^verbatim>\<open>payload_hash_alg\<close> outside
  \<^verbatim>\<open>SHA-256\<close>, \<^verbatim>\<open>SHA-384\<close>, \<^verbatim>\<open>SHA-512\<close> be refused by an explicit, exhaustive check
  raising \<^verbatim>\<open>UnsupportedAlgorithmError\<close>. The \<^verbatim>\<open>match\<close> statement has no default case:
  for \<^verbatim>\<open>SHA-512/256\<close> (whose label the module defines and never uses) the label stays
  unbound, and the call ends in the \<^verbatim>\<open>UnboundLocalError\<close> that reading it at line 125
  raises.
\<close>

theorem unsupported_alg_raises_unbound_local:
  "create_hashed_signed_statement lib
     (demo_args\<lparr>payload_hash_alg := Some (PStr ''SHA-512/256'')\<rparr>) s
   = (Inl UnboundLocalError, s)"
  by (simp add: create_hashed_signed_statement_def demo_args_def demo_key_def
      arg_payload_hash_alg_def match_payload_hash_alg_def protected_header_display_None)

section \<open>The payload hash algorithm label\<close>

text \<open>
  Claim C2. For each supported algorithm, the protected header stores that algorithm's
  numeric code under key \<open>-6800\<close>: \<open>-16\<close> for \<^verbatim>\<open>SHA-256\<close>, \<open>-43\<close> for \<^verbatim>\<open>SHA-384\<close>,
  \<open>-44\<close> for \<^verbatim>\<open>SHA-512\<close>; and with a verifying key present the header is built.
\<close>

theorem hash_alg_label_in_header:
  assumes "verifying_key (signing_key a) = Some vk"
    and "arg_payload_hash_alg a = PStr alg"
    and "(alg, code) \<in> {(''SHA-256'', - 16), (''SHA-384'', - 43), (''SHA-512'', - 44)}"
  shows "\<exists>ph. protected_header a = Inr ph \<and> lookup ph (PInt (- 6800)) = Some (PInt code)"
proof -
  from assms(2,3) have "match_payload_hash_alg (arg_payload_hash_alg a) = Some code"
    by (auto simp: match_payload_hash_alg_Some)
  with assms(1) show ?thesis
    by (simp add: protected_header_built protected_header_display_Some lookup_def)
qed

theorem hash_alg_label_in_header_witness:
  "verifying_key (signing_key (demo_args\<lparr>payload_hash_alg := Some (PStr ''SHA-384'')\<rparr>))
     = Some \<lparr>vk_to_string = replicate 32 (CHR ''x'') @ replicate 32 (CHR ''y'')\<rparr>
   \<and> arg_payload_hash_alg (demo_args\<lparr>payload_hash_alg := Some (PStr ''SHA-384'')\<rparr>)
     = PStr ''SHA-384''
   \<and> (\<exists>ph. protected_header (demo_args\<lparr>payload_hash_alg := Some (PStr ''SHA-384'')\<rparr>) = Inr ph
        \<and> lookup ph (PInt (- 6800)) = Some (PInt (- 43)))"
  using hash_alg_label_in_header
    [of "demo_args\<lparr>payload_hash_alg := Some (PStr ''SHA-384'')\<rparr>"
        "\<lparr>vk_to_string = replicate 32 (CHR ''x'') @ replicate 32 (CHR ''y'')\<rparr>"
        "''SHA-384''" "- 43"]
  by (simp add: demo_args_def demo_key_def arg_payload_hash_alg_def)


section \<open>The CWT claims\<close>

text \<open>
  Claim C3. Whenever the protected header is built, it holds under label \<open>13\<close> a map
  with the issuer at \<open>1\<close>, the subject at \<open>2\<close>, and at \<open>8\<close> a confirmation claim whose
  key \<open>1\<close> is a COSE key of type EC2 on curve P-256, with the coordinates \<open>x\<close> and \<open>y\<close>
  sliced from the serialised verifying key of the signing key.
\<close>

theorem cwt_claims_in_header:
  assumes "protected_header a = Inr ph"
  shows "\<exists>vk cwt cnf cose_key.
     verifying_key (signing_key a) = Some vk \<and>
     lookup ph (PInt 13) = Some cwt \<and>
     lookup cwt (PInt 1) = Some (issuer a) \<and>
     lookup cwt (PInt 2) = Some (subject a) \<and>
     lookup cwt (PInt 8) = Some cnf \<and>
     lookup cnf (PInt 1) = Some cose_key \<and>
     lookup cose_key (PCose KpKty) = Some (PCose KtyEC2) \<and>
     lookup cose_key (PCose EC2KpCurve) = Some (PCose P256) \<and>
     lookup cose_key (PCose EC2KpX) = Some (PBytes (slice 0 32 (vk_to_string vk))) \<and>
     lookup cose_key (PCose EC2KpY) = Some (PBytes (slice 32 64 (vk_to_string vk)))"
proof -
  from protected_header_Inr [OF assms] obtain vk label where
    vk: "verifying_key (signing_key a) = Some vk" and
    ph: "protected_header_display a (slice 0 32 (vk_to_string vk))
       (slice 32 64 (vk_to_string vk)) (Some label) = Inr ph"
    by blast
  from ph have "ph = PDict
     [(PCose Algorithm, PCose Es256),
      (PCose KID, arg_kid a),
      (PInt (- 6802), arg_pre_image_content_type a),
      (PInt 13, PDict
         [(PInt 1, issuer a),
          (PInt 2, subject a),
          (PInt 8, PDict
             [(PInt 1, PDict
                 [(PCose KpKty, PCose KtyEC2),
                  (PCose EC2KpCurve, PCose P256),
                  (PCose EC2KpX, PBytes (slice 0 32 (vk_to_string vk))),
                  (PCose EC2KpY, PBytes (slice 32 64 (vk_to_string vk)))])])]),
      (PInt (- 6800), PInt label),
      (PInt (- 6801), arg_payload_location a),
      (PInt (- 6804), arg_meta_map a)]"
    by (simp add: protected_header_display_Some)
  with vk show ?thesis
    by (simp add: lookup_def)
qed

theorem cwt_claims_in_header_witness:
  "\<exists>ph vk cwt cnf cose_key.
     protected_header demo_args = Inr ph \<and>
     verifying_key (signing_key demo_args) = Some vk \<and>
     lookup ph (PInt 13) = Some cwt \<and>
     lookup cwt (PInt 1) = Some (issuer demo_args) \<and>
     lookup cwt (PInt 2) = Some (subject demo_args) \<and>
     lookup cwt (PInt 8) = Some cnf \<and>
     lookup cnf (PInt 1) = Some cose_key \<and>
     lookup cose_key (PCose KpKty) = Some (PCose KtyEC2) \<and>
     lookup cose_key (PCose EC2KpCurve) = Some (PCose P256) \<and>
     lookup cose_key (PCose EC2KpX) = Some (PBytes (slice 0 32 (vk_to_string vk))) \<and>
     lookup cose_key (PCose EC2KpY) = Some (PBytes (slice 32 64 (vk_to_string vk)))"
proof -
  have "\<exists>ph. protected_header demo_args = Inr ph"
    by (simp only: demo_args_header protected_header_display_Inr)
  then obtain ph where ph: "protected_header demo_args = Inr ph" ..
  from cwt_claims_in_header [OF ph] ph show ?thesis by blast
qed

section \<open>The public coordinates\<close>



section \<open>Failure and the output file\<close>

text \<open>
  Claim C5. A run of the program that ends in an exception, raised while the statement
  is built or signed or anywhere else, leaves every file as it was; and whenever the files
  change, \<^verbatim>\<open>create_hashed_signed_statement\<close> has returned the signed statement, and
  exactly these bytes have been stored under the output path.
\<close>

theorem failed_run_writes_no_file:
  "(fst (main lib argv w) = Inl e \<longrightarrow> files (snd (main lib argv w)) = files w) \<and>
   (files (snd (main lib argv w)) \<noteq> files w \<longrightarrow>
      (\<exists>a signed_statement s'.
         create_hashed_signed_statement lib a (signer w) = (Inr signed_statement, s') \<and>
         fst (main lib argv w) = Inr () \<and>
         files (snd (main lib argv w)) =
           (files w)(ns_output_file (parse_args argv) \<mapsto> signed_statement)))"
  by (auto simp: main_def Let_def split: sum.splits prod.splits option.splits)

theorem failed_run_writes_no_file_witness:
  "(fst (main failing_signer_lib Map.empty demo_world) = Inl (LibraryError ''sign'') \<and>
    files (snd (main failing_signer_lib Map.empty demo_world)) = files demo_world) \<and>
   (files (snd (main demo_lib Map.empty demo_world)) \<noteq> files demo_world \<and>
    (\<exists>a signed_statement s'.
       create_hashed_signed_statement demo_lib a (signer demo_world)
         = (Inr signed_statement, s') \<and>
       fst (main demo_lib Map.empty demo_world) = Inr () \<and>
       files (snd (main demo_lib Map.empty demo_world)) =
         (files demo_world)(ns_output_file (parse_args Map.empty) \<mapsto> signed_statement)))"
proof -
  have fail: "fst (main failing_signer_lib Map.empty demo_world) = Inl (LibraryError ''sign'')"
    by (simp add: failing_signer_run)
  have "files (snd (main demo_lib Map.empty demo_world)) ''signed-statement.cbor''
      \<noteq> files demo_world ''signed-statement.cbor''"
    unfolding demo_run by (simp add: demo_world_def)
  then have changed: "files (snd (main demo_lib Map.empty demo_world)) \<noteq> files demo_world"
    by auto
  from failed_run_writes_no_file
      [of failing_signer_lib Map.empty demo_world "LibraryError ''sign''"]
    failed_run_writes_no_file [of demo_lib Map.empty demo_world]
    fail changed
  show ?thesis
    by blast
qed

section \<open>Defaults\<close>

text \<open>
  Claim C6. When \<^verbatim>\<open>kid\<close> is omitted and the call reaches the encoder, what the call
  returns is the encoding of a message whose protected header carries the placeholder
  \<^verbatim>\<open>testkey\<close>, the byte string of the signature's default, as its key identifier.
\<close>

theorem default_kid_reaches_encoder:
  assumes "kid a = None"
    and "protected_header a = Inr ph"
    and "xy_parts (signing_key a) = Inr (x, y)"
    and "lib_sign1_init lib ph (arg_payload a) = None"
    and "lib_from_dict lib (cose_key_display (signing_key a) x y) = Inr key"
  shows "lookup ph (PCose KID) = Some (PBytes ''testkey'') \<and>
     create_hashed_signed_statement lib a s =
       lib_encode lib \<lparr>phdr = ph, msg_payload = arg_payload a, msg_key = Some key\<rparr> [PNone] s"
proof -
  from protected_header_Inr [OF assms(2)] obtain x' y' label where
    "protected_header_display a x' y' (Some label) = Inr ph"
    by blast
  with assms(1) have "lookup ph (PCose KID) = Some (PBytes ''testkey'')"
    by (auto simp: protected_header_display_Some lookup_def arg_kid_def)
  with create_reaches_encoder [OF assms(2-5)] show ?thesis
    by simp
qed

theorem default_kid_reaches_encoder_witness:
  "kid signing_args = None \<and>
   (\<exists>ph. protected_header signing_args = Inr ph \<and>
      xy_parts (signing_key signing_args) = Inr (p256_x, p256_y) \<and>
      lib_sign1_init demo_lib ph (arg_payload signing_args) = None \<and>
      lib_from_dict demo_lib (cose_key_display (signing_key signing_args) p256_x p256_y)
        = Inr (cose_key_display p256_key p256_x p256_y) \<and>
      lookup ph (PCose KID) = Some (PBytes ''testkey'') \<and>
      create_hashed_signed_statement demo_lib signing_args 0 =
        lib_encode demo_lib
          \<lparr>phdr = ph, msg_payload = arg_payload signing_args,
             msg_key = Some (cose_key_display p256_key p256_x p256_y)\<rparr> [PNone] 0) \<and>
   create_hashed_signed_statement demo_lib signing_args 0 =
     (Inr (''testkey'' @ '':'' @ hello_sha256 @ '':signature''), 1)"
proof -
  have k: "kid signing_args = None"
    by (simp add: signing_args_def)
  have "\<exists>ph. protected_header signing_args = Inr ph"
    by (simp only: signing_args_header protected_header_display_Inr)
  then obtain ph where ph: "protected_header signing_args = Inr ph" ..
  then have ph_eq: "protected_header_display signing_args p256_x p256_y (Some (- 16)) = Inr ph"
    by (simp only: signing_args_header)
  have kid: "lookup ph (PCose KID) = Some (PBytes ''testkey'')"
    using ph_eq by (auto simp: protected_header_display_Some lookup_def arg_kid_def signing_args_def)
  have xy: "xy_parts (signing_key signing_args) = Inr (p256_x, p256_y)"
    by (simp add: signing_args_def p256_xy_parts)
  have init: "lib_sign1_init demo_lib ph (arg_payload signing_args) = None"
    by (simp add: demo_lib_def kid arg_payload_def signing_args_def)
  have key: "lib_from_dict demo_lib (cose_key_display (signing_key signing_args) p256_x p256_y)
      = Inr (cose_key_display p256_key p256_x p256_y)"
    by (simp add: demo_lib_def signing_args_def)
  from default_kid_reaches_encoder [OF k ph xy init key, of 0] k ph xy init key signing_args_run
  show ?thesis
    by blast
qed

text \<open>
  Claim C7. When \<^verbatim>\<open>payload_hash_alg\<close> is omitted, the algorithm is \<^verbatim>\<open>SHA-256\<close> and
  the header holds \<open>-16\<close> under \<open>-6800\<close>.
\<close>

theorem default_hash_alg_sha256:
  assumes "payload_hash_alg a = None" and "verifying_key (signing_key a) = Some vk"
  shows "arg_payload_hash_alg a = PStr ''SHA-256'' \<and>
     (\<exists>ph. protected_header a = Inr ph \<and> lookup ph (PInt (- 6800)) = Some (PInt (- 16)))"
proof -
  from assms(1) have alg: "arg_payload_hash_alg a = PStr ''SHA-256''"
    by (simp add: arg_payload_hash_alg_def)
  then have "match_payload_hash_alg (arg_payload_hash_alg a) = Some (- 16)"
    by (simp add: match_payload_hash_alg_Some)
  with assms(2) alg show ?thesis
    by (simp add: protected_header_built protected_header_display_Some lookup_def)
qed

theorem default_hash_alg_sha256_witness:
  "payload_hash_alg demo_args = None \<and>
   verifying_key (signing_key demo_args)
     = Some \<lparr>vk_to_string = replicate 32 (CHR ''x'') @ replicate 32 (CHR ''y'')\<rparr> \<and>
   arg_payload_hash_alg demo_args = PStr ''SHA-256'' \<and>
   (\<exists>ph. protected_header demo_args = Inr ph \<and>
      lookup ph (PInt (- 6800)) = Some (PInt (- 16)))"
proof -
  have h: "payload_hash_alg demo_args = None"
    by (simp add: demo_args_def)
  have vk: "verifying_key (signing_key demo_args)
     = Some \<lparr>vk_to_string = replicate 32 (CHR ''x'') @ replicate 32 (CHR ''y'')\<rparr>"
    by (simp add: demo_args_def demo_key_def)
  from default_hash_alg_sha256 [OF h vk] h vk show ?thesis
    by blast
qed

section \<open>The payload\<close>

text \<open>
  Claim C9. The function hashes nothing: the message given to the encoder carries the
  \<^verbatim>\<open>payload\<close> argument as it was passed, and the result of the call does not depend on
  the hash function. The digest is computed by the caller: \<^verbatim>\<open>main\<close> passes the SHA-256
  digest of the UTF-8 bytes of the payload file.
\<close>

theorem payload_passed_verbatim:
  "(protected_header a = Inr ph \<and> xy_parts (signing_key a) = Inr (x, y) \<and>
    lib_sign1_init lib ph (arg_payload a) = None \<and>
    lib_from_dict lib (cose_key_display (signing_key a) x y) = Inr key \<longrightarrow>
      create_hashed_signed_statement lib a s =
        lib_encode lib \<lparr>phdr = ph, msg_payload = arg_payload a, msg_key = Some key\<rparr> [PNone] s) \<and>
   create_hashed_signed_statement (lib\<lparr>lib_sha256 := f\<rparr>) a s =
     create_hashed_signed_statement lib a s \<and>
   (load_meta_map lib w (parse_args argv) = Inr meta_map_dict \<and>
    open_signing_key lib w (ns_signing_key_file (parse_args argv)) = Inr sk \<and>
    read_file lib w (ns_payload_file (parse_args argv)) = Inr payload_contents \<and>
    open_wb w (ns_output_file (parse_args argv)) = None \<longrightarrow>
      fst (main lib argv w) =
        map_sum id (\<lambda>b. ())
          (fst (create_hashed_signed_statement lib
             (main_call_args (parse_args argv) sk meta_map_dict
                (lib_sha256 lib (lib_utf8_encode lib payload_contents)))
             (signer w))) \<and>
      arg_payload (main_call_args (parse_args argv) sk meta_map_dict
                (lib_sha256 lib (lib_utf8_encode lib payload_contents)))
        = PBytes (lib_sha256 lib (lib_utf8_encode lib payload_contents)))"
proof (intro conjI impI)
  assume "protected_header a = Inr ph \<and> xy_parts (signing_key a) = Inr (x, y) \<and>
    lib_sign1_init lib ph (arg_payload a) = None \<and>
    lib_from_dict lib (cose_key_display (signing_key a) x y) = Inr key"
  then show "create_hashed_signed_statement lib a s =
        lib_encode lib \<lparr>phdr = ph, msg_payload = arg_payload a, msg_key = Some key\<rparr> [PNone] s"
    by (simp add: create_reaches_encoder)
next
  show "create_hashed_signed_statement (lib\<lparr>lib_sha256 := f\<rparr>) a s =
     create_hashed_signed_statement lib a s"
    by (simp add: create_hashed_signed_statement_def Let_def split: option.splits sum.splits)
next
  assume "load_meta_map lib w (parse_args argv) = Inr meta_map_dict \<and>
    open_signing_key lib w (ns_signing_key_file (parse_args argv)) = Inr sk \<and>
    read_file lib w (ns_payload_file (parse_args argv)) = Inr payload_contents \<and>
    open_wb w (ns_output_file (parse_args argv)) = None"
  then show "fst (main lib argv w) =
        map_sum id (\<lambda>b. ())
          (fst (create_hashed_signed_statement lib
             (main_call_args (parse_args argv) sk meta_map_dict
                (lib_sha256 lib (lib_utf8_encode lib payload_contents)))
             (signer w)))"
    by (simp add: main_reaches_call)
next
  show "arg_payload (main_call_args (parse_args argv) sk meta_map_dict
                (lib_sha256 lib (lib_utf8_encode lib payload_contents)))
        = PBytes (lib_sha256 lib (lib_utf8_encode lib payload_contents))"
    by (simp add: arg_payload_def main_call_args_def)
qed

theorem payload_passed_verbatim_witness:
  "(\<exists>ph.
     protected_header signing_args = Inr ph \<and>
     xy_parts (signing_key signing_args) = Inr (p256_x, p256_y) \<and>
     lib_sign1_init demo_lib ph (arg_payload signing_args) = None \<and>
     lib_from_dict demo_lib (cose_key_display (signing_key signing_args) p256_x p256_y)
       = Inr (cose_key_display p256_key p256_x p256_y) \<and>
     create_hashed_signed_statement demo_lib signing_args 0 =
        lib_encode demo_lib
          \<lparr>phdr = ph, msg_payload = PBytes hello_sha256,
             msg_key = Some (cose_key_display p256_key p256_x p256_y)\<rparr> [PNone] 0 \<and>
     lib_encode demo_lib
          \<lparr>phdr = ph, msg_payload = PBytes hello_sha256,
             msg_key = Some (cose_key_display p256_key p256_x p256_y)\<rparr> [PNone] 0
       = (Inr (''testkey'' @ '':'' @ hello_sha256 @ '':signature''), 1)) \<and>
   (load_meta_map demo_lib demo_world (parse_args Map.empty) = Inr (PDict []) \<and>
    open_signing_key demo_lib demo_world (ns_signing_key_file (parse_args Map.empty))
      = Inr p256_key \<and>
    read_file demo_lib demo_world (ns_payload_file (parse_args Map.empty)) = Inr ''hello'' \<and>
    open_wb demo_world (ns_output_file (parse_args Map.empty)) = None \<and>
    fst (main demo_lib Map.empty demo_world) =
       map_sum id (\<lambda>b. ())
         (fst (create_hashed_signed_statement demo_lib
            (main_call_args (parse_args Map.empty) p256_key (PDict [])
               (lib_sha256 demo_lib (lib_utf8_encode demo_lib ''hello'')))
            (signer demo_world))) \<and>
    arg_payload (main_call_args (parse_args Map.empty) p256_key (PDict [])
               (lib_sha256 demo_lib (lib_utf8_encode demo_lib ''hello'')))
      = PBytes hello_sha256)"
proof -
  have "\<exists>ph. protected_header signing_args = Inr ph"
    by (simp only: signing_args_header protected_header_display_Inr)
  then obtain ph where ph: "protected_header signing_args = Inr ph" ..
  then have ph_eq: "protected_header_display signing_args p256_x p256_y (Some (- 16)) = Inr ph"
    by (simp only: signing_args_header)
  have kid: "lookup ph (PCose KID) = Some (PBytes ''testkey'')"
    using ph_eq by (auto simp: protected_header_display_Some lookup_def arg_kid_def signing_args_def)
  have pay: "arg_payload signing_args = PBytes hello_sha256"
    by (simp add: arg_payload_def signing_args_def)
  have xy: "xy_parts (signing_key signing_args) = Inr (p256_x, p256_y)"
    by (simp add: signing_args_def p256_xy_parts)
  have init: "lib_sign1_init demo_lib ph (arg_payload signing_args) = None"
    by (simp add: demo_lib_def kid pay)
  have key: "lib_from_dict demo_lib (cose_key_display (signing_key signing_args) p256_x p256_y)
      = Inr (cose_key_display p256_key p256_x p256_y)"
    by (simp add: demo_lib_def signing_args_def)
  have enc: "lib_encode demo_lib
          \<lparr>phdr = ph, msg_payload = PBytes hello_sha256,
             msg_key = Some (cose_key_display p256_key p256_x p256_y)\<rparr> [PNone] 0
       = (Inr (''testkey'' @ '':'' @ hello_sha256 @ '':signature''), 1)"
    by (simp add: demo_lib_def kid)
  have digest: "lib_sha256 demo_lib (lib_utf8_encode demo_lib ''hello'') = hello_sha256"
    by (simp add: demo_lib_def)
  from payload_passed_verbatim
      [of signing_args ph p256_x p256_y demo_lib "cose_key_display p256_key p256_x p256_y" 0 _
        demo_world Map.empty "PDict []" p256_key "''hello''"]
    ph xy init key demo_run_inputs
  have inst: "create_hashed_signed_statement demo_lib signing_args 0 =
        lib_encode demo_lib
          \<lparr>phdr = ph, msg_payload = arg_payload signing_args,
             msg_key = Some (cose_key_display p256_key p256_x p256_y)\<rparr> [PNone] 0"
    "fst (main demo_lib Map.empty demo_world) =
       map_sum id (\<lambda>b. ())
         (fst (create_hashed_signed_statement demo_lib
            (main_call_args (parse_args Map.empty) p256_key (PDict [])
               (lib_sha256 demo_lib (lib_utf8_encode demo_lib ''hello'')))
            (signer demo_world)))"
    "arg_payload (main_call_args (parse_args Map.empty) p256_key (PDict [])
               (lib_sha256 demo_lib (lib_utf8_encode demo_lib ''hello'')))
      = PBytes (lib_sha256 demo_lib (lib_utf8_encode demo_lib ''hello''))"
    by blast+
  from inst(1) pay have inst1: "create_hashed_signed_statement demo_lib signing_args 0 =
        lib_encode demo_lib
          \<lparr>phdr = ph, msg_payload = PBytes hello_sha256,
             msg_key = Some (cose_key_display p256_key p256_x p256_y)\<rparr> [PNone] 0"
    by simp
  from inst(3) digest have inst3:
    "arg_payload (main_call_args (parse_args Map.empty) p256_key (PDict [])
               (lib_sha256 demo_lib (lib_utf8_encode demo_lib ''hello'')))
      = PBytes hello_sha256"
    by simp
  from ph xy init key inst1 enc demo_run_inputs inst(2) inst3 show ?thesis
    by blast
qed

section \<open>Optional header parameters\<close>

text \<open>
  Claim C10. When \<^verbatim>\<open>payload_location\<close>, \<^verbatim>\<open>pre_image_content_type\<close> or \<^verbatim>\<open>meta_map\<close>
  is omitted, its label (\<open>-6801\<close>, \<open>-6802\<close>, \<open>-6804\<close>) is still a key of the protected
  header, mapped to \<^verbatim>\<open>None\<close>.
\<close>

theorem absent_options_are_null_entries:
  assumes "protected_header a = Inr ph"
  shows "(payload_location a = None \<longrightarrow> lookup ph (PInt (- 6801)) = Some PNone) \<and>
     (pre_image_content_type a = None \<longrightarrow> lookup ph (PInt (- 6802)) = Some PNone) \<and>
     (meta_map a = None \<longrightarrow> lookup ph (PInt (- 6804)) = Some PNone)"
proof -
  from protected_header_Inr [OF assms] obtain x y label where
    "protected_header_display a x y (Some label) = Inr ph"
    by blast
  then show ?thesis
    by (auto simp: protected_header_display_Some lookup_def arg_payload_location_def
        arg_pre_image_content_type_def arg_meta_map_def)
qed

theorem absent_options_are_null_entries_witness:
  "payload_location demo_args = None \<and> pre_image_content_type demo_args = None \<and>
   meta_map demo_args = None \<and>
   (\<exists>ph. protected_header demo_args = Inr ph \<and>
      lookup ph (PInt (- 6801)) = Some PNone \<and>
      lookup ph (PInt (- 6802)) = Some PNone \<and>
      lookup ph (PInt (- 6804)) = Some PNone)"
proof -
  have n: "payload_location demo_args = None" "pre_image_content_type demo_args = None"
    "meta_map demo_args = None"
    by (simp_all add: demo_args_def)
  have "\<exists>ph. protected_header demo_args = Inr ph"
    by (simp only: demo_args_header protected_header_display_Inr)
  then obtain ph where ph: "protected_header demo_args = Inr ph" ..
  from absent_options_are_null_entries [OF ph] n ph show ?thesis
    by blast
qed

end
